theory Spec2Isabelle
  imports Main
begin

section \<open>The Conditional Store\<close>

text \<open>
  The key-value store is an external collaborator (DynamoDB). An item is a finite map from
  attribute names to attribute values, a table is a map from the key's value to the item.
  Numbers are modelled as integers.
\<close>

datatype attr = S string | N int

type_synonym item = "string \<rightharpoonup> attr"

type_synonym table = "string \<rightharpoonup> item"

text \<open>
  Errors by their \<^verbatim>\<open>name\<close>. \<open>ServiceFailure\<close> stands for every failure a service call
  reports other than a rejected condition (unreachable, timeout, throttling).
\<close>

datatype err = ConditionalCheckFailedException | ServiceFailure | SyntaxError | TypeError

text \<open>
  Modelled from the spec: the Conditional Store contract, whose code is not part of the
  repository (the store is DynamoDB, reached through its client). The first argument of
  each operation says whether the store answers the call. A condition is a predicate on
  the item currently stored under the key (\<open>None\<close> when there is none), evaluated in the
  same atomic step as the write.

  \<^verbatim>\<open>get(table, key) -> record|absent\<close>
\<close>

definition GetItem :: "bool \<Rightarrow> table \<Rightarrow> string \<Rightarrow> err + item option" where
  "GetItem up t k = (if up then Inr (t k) else Inl ServiceFailure)"

text \<open>
  Modelled from the spec: \<^verbatim>\<open>put(table, item, condition?) -> ok|conditionFailed\<close>. The item
  replaces whatever is stored under the key.
\<close>

definition PutItem :: "bool \<Rightarrow> table \<Rightarrow> string \<Rightarrow> item \<Rightarrow> (item option \<Rightarrow> bool) \<Rightarrow> err + table" where
  "PutItem up t k it cond =
     (if \<not> up then Inl ServiceFailure
      else if \<not> cond (t k) then Inl ConditionalCheckFailedException
      else Inr (t(k \<mapsto> it)))"

text \<open>
  Modelled from the spec: \<^verbatim>\<open>update(table, key, mutation, condition?) -> ok|conditionFailed\<close>.
  As DynamoDB's \<^verbatim>\<open>UpdateItem\<close> does, an update of a key without an item starts from the item
  that holds the key attribute only (an upsert).
\<close>

definition UpdateItem ::
  "bool \<Rightarrow> table \<Rightarrow> string \<Rightarrow> string \<Rightarrow> (item \<Rightarrow> item) \<Rightarrow> (item option \<Rightarrow> bool) \<Rightarrow> err + table" where
  "UpdateItem up t keyName k upd cond =
     (if \<not> up then Inl ServiceFailure
      else if \<not> cond (t k) then Inl ConditionalCheckFailedException
      else Inr (t(k \<mapsto> upd (case t k of None \<Rightarrow> [keyName \<mapsto> S k] | Some it \<Rightarrow> it))))"

text \<open>No \<^verbatim>\<open>ConditionExpression\<close>.\<close>

definition unconditional :: "item option \<Rightarrow> bool" where
  "unconditional cur = True"

text \<open>\<^verbatim>\<open>ConditionExpression: 'attribute_not_exists(orderId)'\<close>\<close>

definition attribute_not_exists :: "string \<Rightarrow> item option \<Rightarrow> bool" where
  "attribute_not_exists a cur = (case cur of None \<Rightarrow> True | Some it \<Rightarrow> it a = None)"

text \<open>
  \<^verbatim>\<open>ConditionExpression: 'stock >= :qty'\<close>: false when the item or its numeric \<open>stock\<close>
  attribute is absent.
\<close>

definition stock_ge :: "int \<Rightarrow> item option \<Rightarrow> bool" where
  "stock_ge qty cur =
     (case cur of
        None \<Rightarrow> False
      | Some it \<Rightarrow> (case it ''stock'' of Some (N c) \<Rightarrow> qty \<le> c | _ \<Rightarrow> False))"

text \<open>
  \<^verbatim>\<open>UpdateExpression: 'SET stock = stock - :qty'\<close>. Under the condition \<open>stock_ge\<close> the
  attribute is present and numeric; the other branch is never reached by the worker.
\<close>

definition subtract_stock :: "int \<Rightarrow> item \<Rightarrow> item" where
  "subtract_stock qty it =
     (case it ''stock'' of Some (N c) \<Rightarrow> it(''stock'' \<mapsto> N (c - qty)) | _ \<Rightarrow> it)"

text \<open>\<^verbatim>\<open>UpdateExpression: 'SET #s = :status, updatedAt = :ts'\<close> with \<^verbatim>\<open>#s = status\<close>.\<close>

definition set_status :: "string \<Rightarrow> string \<Rightarrow> item \<Rightarrow> item" where
  "set_status status ts it = it(''status'' \<mapsto> S status, ''updatedAt'' \<mapsto> S ts)"

record db =
  orders :: table
  inventory :: table

text \<open>What a reader of the tables sees.\<close>

definition status_of :: "table \<Rightarrow> string \<Rightarrow> attr option" where
  "status_of t orderId = (case t orderId of None \<Rightarrow> None | Some it \<Rightarrow> it ''status'')"

section \<open>The order request and the order event\<close>

text \<open>
  The body of an intake request, at its declared type \<^verbatim>\<open>OrderRequest\<close>: \<open>None\<close> is a field
  that is absent (or \<^verbatim>\<open>null\<close>). The fields are read as \<open>OrderRequest.quantity\<close> and so on;
  the unqualified names are the fields of the event.
\<close>

record OrderRequest =
  customerId :: "string option"
  productId :: "string option"
  quantity :: "int option"
  totalAmount :: "int option"

text \<open>
  The event as the notifier's interface declares it. Its two numbers are JavaScript
  numbers, whole or not; their type is left open. The fields are read as
  \<open>OrderEvent_notifier.orderId\<close> and so on.
\<close>

record 'num OrderEvent_notifier =
  orderId :: string
  customerId :: string
  productId :: string
  quantity :: 'num
  totalAmount :: 'num
  timestamp :: string

record OrderEvent =
  orderId :: string
  customerId :: string
  productId :: string
  quantity :: int
  totalAmount :: int
  timestamp :: string

section \<open>Inventory worker (lambdas/inventory-worker/index.ts)\<close>

text \<open>
  \<^verbatim>\<open>parseInt(currentStock.Item?.stock?.N || '0')\<close>: an absent item, or an item without a
  numeric \<open>stock\<close>, reads as 0.
\<close>

definition parse_stock :: "item option \<Rightarrow> int" where
  "parse_stock currentStock =
     (case currentStock of
        None \<Rightarrow> 0
      | Some it \<Rightarrow> (case it ''stock'' of Some (N c) \<Rightarrow> c | _ \<Rightarrow> 0))"

definition stock_of :: "table \<Rightarrow> string \<Rightarrow> int" where
  "stock_of t p = parse_stock (t p)"

text \<open>
  The environment of one processing of a record: whether the store answers the
  \<^verbatim>\<open>GetItem\<close>, the conditional \<^verbatim>\<open>UpdateItem\<close> and the status write, the clock read by
  \<^verbatim>\<open>new Date().toISOString()\<close>, and \<open>interleaved\<close>, the writes that concurrently running
  instances commit to the Inventory table between this instance's read and its write (the
  identity when the instance runs alone).
\<close>

record worker_env =
  get_up :: bool
  dec_up :: bool
  status_up :: bool
  now :: string
  interleaved :: "table \<Rightarrow> table"

definition updateOrderStatus :: "bool \<Rightarrow> string \<Rightarrow> table \<Rightarrow> string \<Rightarrow> string \<Rightarrow> err + table" where
  "updateOrderStatus up ts t oid status =
     UpdateItem up t ''orderId'' oid (set_status status ts) unconditional"

text \<open>The \<^verbatim>\<open>catch (err)\<close> block of the loop body, lines 53 to 61.\<close>

definition catch_block :: "worker_env \<Rightarrow> OrderEvent \<Rightarrow> err \<Rightarrow> db \<Rightarrow> (err + unit) \<times> db" where
  "catch_block env order e d =
     (if e = ConditionalCheckFailedException then
        (case updateOrderStatus (status_up env) (now env) (orders d) (orderId order)
                ''FAILED_INSUFFICIENT_STOCK'' of
           Inl e' \<Rightarrow> (Inl e', d)
         | Inr os \<Rightarrow> (Inr (), d\<lparr>orders := os\<rparr>))
      else (Inl e, d))"

text \<open>The \<^verbatim>\<open>try\<close> block of the loop body for one parsed record, lines 22 to 52.\<close>

definition process_record :: "worker_env \<Rightarrow> OrderEvent \<Rightarrow> db \<Rightarrow> (err + unit) \<times> db" where
  "process_record env order d =
     (case GetItem (get_up env) (inventory d) (productId order) of
        Inl e \<Rightarrow> catch_block env order e d
      | Inr currentStock \<Rightarrow>
          let stock = parse_stock currentStock in
          if stock < quantity order then
            (case updateOrderStatus (status_up env) (now env) (orders d) (orderId order)
                    ''FAILED_INSUFFICIENT_STOCK'' of
               Inl e \<Rightarrow> catch_block env order e d
             | Inr os \<Rightarrow> (Inr (), d\<lparr>orders := os\<rparr>))
          else
            let d1 = d\<lparr>inventory := interleaved env (inventory d)\<rparr> in
            (case UpdateItem (dec_up env) (inventory d1) ''productId'' (productId order)
                    (subtract_stock (quantity order)) (stock_ge (quantity order)) of
               Inl e \<Rightarrow> catch_block env order e d1
             | Inr inv' \<Rightarrow>
                 let d2 = d1\<lparr>inventory := inv'\<rparr> in
                 (case updateOrderStatus (status_up env) (now env) (orders d2) (orderId order)
                         ''CONFIRMED'' of
                    Inl e \<Rightarrow> catch_block env order e d2
                  | Inr os \<Rightarrow> (Inr (), d2\<lparr>orders := os\<rparr>))))"

text \<open>
  A queue record whose body, or whose inner \<^verbatim>\<open>Message\<close>, does not parse makes
  \<^verbatim>\<open>JSON.parse\<close> throw outside the \<^verbatim>\<open>try\<close>.
\<close>

datatype sqs_record = Malformed | Record OrderEvent

text \<open>
  The \<^verbatim>\<open>for\<close> loop over \<^verbatim>\<open>event.Records\<close>, each record paired with the environment it is
  processed in. An error stops the loop and leaves the handler.
\<close>

fun handler_inventory_worker :: "(worker_env \<times> sqs_record) list \<Rightarrow> db \<Rightarrow> (err + unit) \<times> db" where
  "handler_inventory_worker [] d = (Inr (), d)"
| "handler_inventory_worker ((env, Malformed) # rest) d = (Inl SyntaxError, d)"
| "handler_inventory_worker ((env, Record order) # rest) d =
     (case process_record env order d of
        (Inl e, d') \<Rightarrow> (Inl e, d')
      | (Inr u, d') \<Rightarrow> handler_inventory_worker rest d')"

text \<open>The environment of an instance that runs alone against a store that answers.\<close>

definition quiet :: "string \<Rightarrow> worker_env" where
  "quiet ts = \<lparr>get_up = True, dec_up = True, status_up = True, now = ts, interleaved = (\<lambda>t. t)\<rparr>"

subsection \<open>Concrete tables and events used in the examples\<close>

definition stocked :: "string \<Rightarrow> int \<Rightarrow> table" where
  "stocked p n = [p \<mapsto> [''productId'' \<mapsto> S p, ''stock'' \<mapsto> N n]]"

definition order_for :: "string \<Rightarrow> string \<Rightarrow> int \<Rightarrow> OrderEvent" where
  "order_for oid p q = \<lparr>orderId = oid, customerId = ''CUST-1'', productId = p, quantity = q,
     totalAmount = 100, timestamp = ''t0''\<rparr>"

text \<open>The Orders table holding the record that intake wrote for one order.\<close>

definition pending :: "OrderEvent \<Rightarrow> table" where
  "pending order = [orderId order \<mapsto>
     [''orderId'' \<mapsto> S (orderId order), ''customerId'' \<mapsto> S (customerId order),
      ''productId'' \<mapsto> S (productId order), ''quantity'' \<mapsto> N (quantity order),
      ''totalAmount'' \<mapsto> N (totalAmount order), ''status'' \<mapsto> S ''PENDING'',
      ''createdAt'' \<mapsto> S (timestamp order)]]"

text \<open>An instance whose read is overtaken: a concurrent settlement empties the stock of \<open>p\<close>.\<close>

definition overtaken :: "string \<Rightarrow> string \<Rightarrow> worker_env" where
  "overtaken ts p = \<lparr>get_up = True, dec_up = True, status_up = True, now = ts,
     interleaved = (\<lambda>t. t(p \<mapsto> [''productId'' \<mapsto> S p, ''stock'' \<mapsto> N 0]))\<rparr>"


section \<open>The completion service\<close>

text \<open>
  The text of a completion is free-form, so what \<^verbatim>\<open>JSON.parse\<close> makes of it is any JSON value.
  In an object the last binding of a name counts.
\<close>

datatype json = JNull | JBool bool | JNum int | JStr string | JArr "json list"
  | JObj "(string \<times> json) list"

text \<open>The truthiness of a value read from a property; \<open>None\<close> is \<^verbatim>\<open>undefined\<close>.\<close>

fun truthy :: "json option \<Rightarrow> bool" where
  "truthy None = False"
| "truthy (Some JNull) = False"
| "truthy (Some (JBool b)) = b"
| "truthy (Some (JNum n)) = (n \<noteq> 0)"
| "truthy (Some (JStr s)) = (s \<noteq> [])"
| "truthy (Some (JArr xs)) = True"
| "truthy (Some (JObj kvs)) = True"

text \<open>
  Reading a property that is not a built-in one (\<^verbatim>\<open>v.isFraudulent\<close>, \<^verbatim>\<open>v.reason\<close>,
  \<^verbatim>\<open>v.subject\<close>, \<^verbatim>\<open>v.body\<close>): a \<^verbatim>\<open>TypeError\<close> on \<^verbatim>\<open>null\<close>, \<^verbatim>\<open>undefined\<close> on every value that is
  not an object.
\<close>

fun read_property :: "json \<Rightarrow> string \<Rightarrow> err + json option" where
  "read_property JNull name = Inl TypeError"
| "read_property (JObj kvs) name = Inr (map_of (rev kvs) name)"
| "read_property v name = Inr None"

text \<open>
  The outcome of \<^verbatim>\<open>axios.post\<close> to the completion service followed by
  \<^verbatim>\<open>JSON.parse(response.data.choices[0].message.content)\<close>: the request is rejected
  (timeout, transport failure, error status), the response has not the shape that the
  property path reads (a \<^verbatim>\<open>TypeError\<close>), the content does not parse (a \<^verbatim>\<open>SyntaxError\<close>),
  or the content parses to a value.
\<close>

datatype completion = RequestFailed | MalformedEnvelope | UnparseableContent | Content json

section \<open>Order service (lambdas/order-service/index.ts)\<close>

definition fail_open :: json where
  "fail_open = JObj [(''isFraudulent'', JBool False), (''reason'', JStr ''fraud check unavailable'')]"

text \<open>
  \<open>checkFraud\<close>, as a function of the outcome of its call: whatever is thrown inside the
  \<^verbatim>\<open>try\<close> is caught.
\<close>

fun checkFraud :: "completion \<Rightarrow> json" where
  "checkFraud (Content j) = j"
| "checkFraud RequestFailed = fail_open"
| "checkFraud MalformedEnvelope = fail_open"
| "checkFraud UnparseableContent = fail_open"

text \<open>
  \<^verbatim>\<open>JSON.parse(event.body || '{}')\<close> throws (\<open>BadJson\<close>), or gives the body; a request
  without a body gives the empty object, \<open>no_body\<close>.
\<close>

datatype request_body = BadJson | Body OrderRequest

definition no_body :: request_body where
  "no_body = Body \<lparr>OrderRequest.customerId = None, OrderRequest.productId = None,
     OrderRequest.quantity = None, OrderRequest.totalAmount = None\<rparr>"

text \<open>\<^verbatim>\<open>!v\<close> for a string field and for a number field.\<close>

definition falsy_string :: "string option \<Rightarrow> bool" where
  "falsy_string v = (case v of None \<Rightarrow> True | Some s \<Rightarrow> s = [])"

definition falsy_number :: "int option \<Rightarrow> bool" where
  "falsy_number v = (case v of None \<Rightarrow> True | Some n \<Rightarrow> n = 0)"

definition missing_fields :: "OrderRequest \<Rightarrow> bool" where
  "missing_fields body \<longleftrightarrow>
     falsy_string (OrderRequest.customerId body) \<or> falsy_string (OrderRequest.productId body)
     \<or> falsy_number (OrderRequest.quantity body) \<or> falsy_number (OrderRequest.totalAmount body)"

datatype response_body =
    Error string
  | Flagged string "json option"
  | Created string string string

record APIGatewayProxyResult =
  statusCode :: nat
  body :: response_body

record sns_message =
  Message :: OrderEvent
  eventType :: string

text \<open>What the order service writes: the Orders table and the topic.\<close>

record intake_state =
  order_table :: table
  published :: "sns_message list"

text \<open>
  The environment of one request: the outcome of the fraud call, the value of
  \<^verbatim>\<open>randomUUID()\<close>, the clock, and whether the store and the topic answer.
\<close>

record intake_env =
  fraud_call :: completion
  uuid :: string
  clock :: string
  put_up :: bool
  publish_up :: bool

text \<open>The \<^verbatim>\<open>Item\<close> of the \<^verbatim>\<open>PutItemCommand\<close>, for a body that passed validation.\<close>

definition order_item :: "string \<Rightarrow> OrderRequest \<Rightarrow> string \<Rightarrow> item" where
  "order_item oid request ts =
     [''orderId'' \<mapsto> S oid,
      ''customerId'' \<mapsto> S (the (OrderRequest.customerId request)),
      ''productId'' \<mapsto> S (the (OrderRequest.productId request)),
      ''quantity'' \<mapsto> N (the (OrderRequest.quantity request)),
      ''totalAmount'' \<mapsto> N (the (OrderRequest.totalAmount request)),
      ''status'' \<mapsto> S ''PENDING'',
      ''createdAt'' \<mapsto> S ts]"

text \<open>The message of the \<^verbatim>\<open>PublishCommand\<close>.\<close>

definition order_created :: "string \<Rightarrow> OrderRequest \<Rightarrow> string \<Rightarrow> sns_message" where
  "order_created oid request ts =
     \<lparr>Message = \<lparr>orderId = oid,
                  customerId = the (OrderRequest.customerId request),
                  productId = the (OrderRequest.productId request),
                  quantity = the (OrderRequest.quantity request),
                  totalAmount = the (OrderRequest.totalAmount request),
                  timestamp = ts\<rparr>,
      eventType = ''ORDER_CREATED''\<rparr>"

text \<open>
  The \<^verbatim>\<open>try\<close> block of the handler, lines 58 to 116: \<open>Inl\<close> is what it throws. The fields
  are read with \<open>the\<close> only after the validation has found them present.
\<close>

definition order_service_try ::
  "intake_env \<Rightarrow> request_body \<Rightarrow> intake_state \<Rightarrow> (err + APIGatewayProxyResult) \<times> intake_state" where
  "order_service_try env event st =
     (case event of
        BadJson \<Rightarrow> (Inl SyntaxError, st)
      | Body request \<Rightarrow>
          if missing_fields request then
            (Inr \<lparr>statusCode = 400, body = Error ''Missing required fields''\<rparr>, st)
          else
            let fraudResult = checkFraud (fraud_call env) in
            (case read_property fraudResult ''isFraudulent'' of
               Inl e \<Rightarrow> (Inl e, st)
             | Inr isFraudulent \<Rightarrow>
                 if truthy isFraudulent then
                   (case read_property fraudResult ''reason'' of
                      Inl e \<Rightarrow> (Inl e, st)
                    | Inr reason \<Rightarrow>
                        (Inr \<lparr>statusCode = 422,
                              body = Flagged ''Order flagged for review'' reason\<rparr>, st))
                 else
                   let orderId' = uuid env; timestamp' = clock env in
                   (case PutItem (put_up env) (order_table st) orderId'
                           (order_item orderId' request timestamp') (attribute_not_exists ''orderId'') of
                      Inl e \<Rightarrow> (Inl e, st)
                    | Inr t' \<Rightarrow>
                        let st1 = st\<lparr>order_table := t'\<rparr> in
                        if \<not> publish_up env then (Inl ServiceFailure, st1)
                        else
                          (Inr \<lparr>statusCode = 201,
                                body = Created orderId' ''PENDING'' ''Order created successfully''\<rparr>,
                           st1\<lparr>published := published st1 @ [order_created orderId' request timestamp']\<rparr>))))"

text \<open>The handler: the \<^verbatim>\<open>catch\<close> turns whatever was thrown into the response 500.\<close>

definition handler_order_service ::
  "intake_env \<Rightarrow> request_body \<Rightarrow> intake_state \<Rightarrow> APIGatewayProxyResult \<times> intake_state" where
  "handler_order_service env event st =
     (case order_service_try env event st of
        (Inl e, st') \<Rightarrow> (\<lparr>statusCode = 500, body = Error ''Internal server error''\<rparr>, st')
      | (Inr response, st') \<Rightarrow> (response, st'))"

section \<open>Notifier worker\<close>

text \<open>
  The fallback template of \<open>generateEmailContent\<close>, lines 48 to 51. What the template
  literal prints for a number (\<^verbatim>\<open>${order.quantity}\<close>, \<^verbatim>\<open>${order.totalAmount}\<close>) is the
  parameter \<open>show_number\<close>.
\<close>

definition fallback :: "('num \<Rightarrow> string) \<Rightarrow> 'num OrderEvent_notifier \<Rightarrow> json" where
  "fallback show_number order =
     JObj [(''subject'', JStr (''Order Confirmation #'' @ OrderEvent_notifier.orderId order)),
           (''body'', JStr (''Thank you for your order! Your order for ''
              @ show_number (OrderEvent_notifier.quantity order)
              @ ''x '' @ OrderEvent_notifier.productId order
              @ '' ($'' @ show_number (OrderEvent_notifier.totalAmount order)
              @ '') has been received and is being processed.''))]"

text \<open>\<open>generateEmailContent\<close>, as a function of the order and of the outcome of its call.\<close>

fun generateEmailContent ::
  "('num \<Rightarrow> string) \<Rightarrow> 'num OrderEvent_notifier \<Rightarrow> completion \<Rightarrow> json" where
  "generateEmailContent show_number order (Content j) = j"
| "generateEmailContent show_number order RequestFailed = fallback show_number order"
| "generateEmailContent show_number order MalformedEnvelope = fallback show_number order"
| "generateEmailContent show_number order UnparseableContent = fallback show_number order"

subsection \<open>A concrete event and a way to print its numbers, used in the examples\<close>

text \<open>The decimal numeral of an integer, with its sign.\<close>

fun digits :: "nat \<Rightarrow> string" where
  "digits n = (if n < 10 then [''0123456789'' ! n] else digits (n div 10) @ [''0123456789'' ! (n mod 10)])"

declare digits.simps [simp del]

definition decimal :: "int \<Rightarrow> string" where
  "decimal n = (if n < 0 then CHR ''-'' # digits (nat (- n)) else digits (nat n))"

definition notified :: "int OrderEvent_notifier" where
  "notified = \<lparr>OrderEvent_notifier.orderId = ''o-1'', OrderEvent_notifier.customerId = ''CUST-1'',
     OrderEvent_notifier.productId = ''P-1'', OrderEvent_notifier.quantity = 2,
     OrderEvent_notifier.totalAmount = 100, OrderEvent_notifier.timestamp = ''t0''\<rparr>"

subsection \<open>Concrete requests used in the examples\<close>

definition request_for :: "string \<Rightarrow> int \<Rightarrow> int \<Rightarrow> OrderRequest" where
  "request_for p q amount =
     \<lparr>OrderRequest.customerId = Some ''CUST-1'', OrderRequest.productId = Some p,
      OrderRequest.quantity = Some q, OrderRequest.totalAmount = Some amount\<rparr>"

definition serving :: "completion \<Rightarrow> string \<Rightarrow> string \<Rightarrow> intake_env" where
  "serving c oid ts = \<lparr>fraud_call = c, uuid = oid, clock = ts, put_up = True, publish_up = True\<rparr>"

definition nothing_stored :: intake_state where
  "nothing_stored = \<lparr>order_table = Map.empty, published = []\<rparr>"


section \<open>Concurrent instances of the inventory worker\<close>

text \<open>
  The queue hands each record to an instance of the handler; instances run concurrently
  and meet only in the store, whose single-key operations are atomic. An instance is
  therefore cut at its store calls. Its control points:
  \<^item> \<open>At_read\<close>: before the \<^verbatim>\<open>GetItem\<close> of line 24;
  \<^item> \<open>At_check stock\<close>: \<open>stock\<close> has been read (line 29), before the branch of line 31 and
    the store call of the branch taken (the status write of line 33, or the conditional
    \<^verbatim>\<open>UpdateItem\<close> of line 39);
  \<^item> \<open>At_confirm\<close>: the decrement is done, before the status write of line 50;
  \<^item> \<open>At_race\<close>: in the \<^verbatim>\<open>catch\<close> with a \<open>ConditionalCheckFailedException\<close>, before the
    status write of line 56;
  \<^item> \<open>Done_confirmed\<close>, \<open>Done_insufficient\<close>, \<open>Done_race\<close>: the iteration has ended after
    line 51, at the \<^verbatim>\<open>continue\<close> of line 35, after line 57;
  \<^item> \<open>Thrown e\<close>: the handler has thrown \<open>e\<close> (line 60, or out of the \<^verbatim>\<open>catch\<close>).
\<close>

datatype pc =
    At_read
  | At_check int
  | At_confirm
  | At_race
  | Done_confirmed
  | Done_insufficient
  | Done_race
  | Thrown err

text \<open>Where an error thrown inside the \<^verbatim>\<open>try\<close> leads (lines 54 to 61).\<close>

definition caught :: "err \<Rightarrow> pc" where
  "caught e = (if e = ConditionalCheckFailedException then At_race else Thrown e)"

text \<open>
  One store call of an instance: \<open>up\<close> says whether the store answers it, \<open>ts\<close> is the clock.
  An instance that has ended stays as it is.
\<close>

fun wstep :: "bool \<Rightarrow> string \<Rightarrow> OrderEvent \<Rightarrow> pc \<Rightarrow> db \<Rightarrow> pc \<times> db" where
  "wstep up ts order At_read d =
     (case GetItem up (inventory d) (productId order) of
        Inl e \<Rightarrow> (caught e, d)
      | Inr currentStock \<Rightarrow> (At_check (parse_stock currentStock), d))"
| "wstep up ts order (At_check stock) d =
     (if stock < quantity order then
        (case updateOrderStatus up ts (orders d) (orderId order) ''FAILED_INSUFFICIENT_STOCK'' of
           Inl e \<Rightarrow> (caught e, d)
         | Inr os \<Rightarrow> (Done_insufficient, d\<lparr>orders := os\<rparr>))
      else
        (case UpdateItem up (inventory d) ''productId'' (productId order)
                (subtract_stock (quantity order)) (stock_ge (quantity order)) of
           Inl e \<Rightarrow> (caught e, d)
         | Inr inv' \<Rightarrow> (At_confirm, d\<lparr>inventory := inv'\<rparr>)))"
| "wstep up ts order At_confirm d =
     (case updateOrderStatus up ts (orders d) (orderId order) ''CONFIRMED'' of
        Inl e \<Rightarrow> (caught e, d)
      | Inr os \<Rightarrow> (Done_confirmed, d\<lparr>orders := os\<rparr>))"
| "wstep up ts order At_race d =
     (case updateOrderStatus up ts (orders d) (orderId order) ''FAILED_INSUFFICIENT_STOCK'' of
        Inl e \<Rightarrow> (Thrown e, d)
      | Inr os \<Rightarrow> (Done_race, d\<lparr>orders := os\<rparr>))"
| "wstep up ts order Done_confirmed d = (Done_confirmed, d)"
| "wstep up ts order Done_insufficient d = (Done_insufficient, d)"
| "wstep up ts order Done_race d = (Done_race, d)"
| "wstep up ts order (Thrown e) d = (Thrown e, d)"


text \<open>What the handler's caller sees of an instance that has ended.\<close>

definition outcome :: "pc \<times> db \<Rightarrow> (err + unit) \<times> db" where
  "outcome r = (case fst r of Thrown e \<Rightarrow> (Inl e, snd r) | _ \<Rightarrow> (Inr (), snd r))"











subsection \<open>Invariants of the system, and the race used as example\<close>













section \<open>Properties of the inventory worker\<close>

lemma updateOrderStatus_up:
  "updateOrderStatus True ts t oid st =
     Inr (t(oid \<mapsto> set_status st ts (case t oid of None \<Rightarrow> [''orderId'' \<mapsto> S oid] | Some it \<Rightarrow> it)))"
  by (simp add: updateOrderStatus_def UpdateItem_def unconditional_def)

lemma updateOrderStatus_down:
  "updateOrderStatus False ts t oid st = Inl ServiceFailure"
  by (simp add: updateOrderStatus_def UpdateItem_def)

lemma status_of_written:
  "status_of (t(oid \<mapsto> set_status st ts it)) oid = Some (S st)"
  by (simp add: status_of_def set_status_def)

lemma decrement_cases:
  "UpdateItem up t ''productId'' p (subtract_stock q) (stock_ge q) =
     (if \<not> up then Inl ServiceFailure
      else if \<not> stock_ge q (t p) then Inl ConditionalCheckFailedException
      else Inr (t(p \<mapsto> subtract_stock q (the (t p)))))"
  by (auto simp: UpdateItem_def stock_ge_def split: option.splits)

lemmas run_simps = process_record_def GetItem_def catch_block_def Let_def decrement_cases
  updateOrderStatus_up updateOrderStatus_down status_of_def stock_of_def parse_stock_def
  stock_ge_def subtract_stock_def set_status_def quiet_def overtaken_def stocked_def
  order_for_def pending_def

text \<open>
  C4. When the stock read for the product (0 for an absent item) is below the requested
  quantity and the store answers, the worker leaves the Inventory table as it is, sets the
  order's status to \<open>FAILED_INSUFFICIENT_STOCK\<close>, and the record is consumed: the loop body
  ends without an error and the handler goes on with the remaining records.
\<close>

theorem insufficient_stock_consumed:
  assumes "get_up env" and "status_up env"
    and "stock_of (inventory d) (productId order) < quantity order"
  shows "fst (process_record env order d) = Inr ()
       \<and> inventory (snd (process_record env order d)) = inventory d
       \<and> status_of (orders (snd (process_record env order d))) (orderId order)
           = Some (S ''FAILED_INSUFFICIENT_STOCK'')
       \<and> handler_inventory_worker ((env, Record order) # rest) d = handler_inventory_worker rest (snd (process_record env order d))"
  using assms
  by (simp add: process_record_def GetItem_def stock_of_def updateOrderStatus_up status_of_written)

text \<open>The scenario of the spec: stock 5, quantity 10.\<close>

theorem insufficient_stock_consumed_witness:
  "get_up (quiet ''t1'') \<and> status_up (quiet ''t1'')
   \<and> stock_of (stocked ''P-3'' 5) ''P-3'' < quantity (order_for ''o-3'' ''P-3'' 10)
   \<and> fst (process_record (quiet ''t1'') (order_for ''o-3'' ''P-3'' 10)
        \<lparr>orders = pending (order_for ''o-3'' ''P-3'' 10), inventory = stocked ''P-3'' 5\<rparr>) = Inr ()
   \<and> stock_of (inventory (snd (process_record (quiet ''t1'') (order_for ''o-3'' ''P-3'' 10)
        \<lparr>orders = pending (order_for ''o-3'' ''P-3'' 10), inventory = stocked ''P-3'' 5\<rparr>))) ''P-3'' = 5
   \<and> status_of (orders (snd (process_record (quiet ''t1'') (order_for ''o-3'' ''P-3'' 10)
        \<lparr>orders = pending (order_for ''o-3'' ''P-3'' 10), inventory = stocked ''P-3'' 5\<rparr>))) ''o-3''
        = Some (S ''FAILED_INSUFFICIENT_STOCK'')"
  using insufficient_stock_consumed [where env = "quiet ''t1''"
      and order = "order_for ''o-3'' ''P-3'' 10" and rest = "[]"
      and d = "\<lparr>orders = pending (order_for ''o-3'' ''P-3'' 10), inventory = stocked ''P-3'' 5\<rparr>"]
  by (simp add: quiet_def order_for_def stocked_def stock_of_def parse_stock_def)

text \<open>
  C10. The status write carries no condition and is an upsert. For an order id without a
  record in the Orders table, \<open>updateOrderStatus\<close> succeeds and creates a record that holds
  \<open>orderId\<close>, \<open>status\<close> and \<open>updatedAt\<close> and nothing else; this is what a processing of an
  event for such an order id, answered by the store, leaves in the table.
\<close>

theorem updateOrderStatus_upsert:
  assumes "orders d (orderId order) = None"
    and "get_up env" and "dec_up env" and "status_up env"
  shows "updateOrderStatus True ts (orders d) (orderId order) st
           = Inr ((orders d)(orderId order \<mapsto>
                [''orderId'' \<mapsto> S (orderId order), ''status'' \<mapsto> S st, ''updatedAt'' \<mapsto> S ts]))
       \<and> (\<exists>st \<in> {''CONFIRMED'', ''FAILED_INSUFFICIENT_STOCK''}.
            orders (snd (process_record env order d)) (orderId order)
              = Some [''orderId'' \<mapsto> S (orderId order), ''status'' \<mapsto> S st,
                      ''updatedAt'' \<mapsto> S (now env)])
       \<and> (\<forall>it. orders (snd (process_record env order d)) (orderId order) = Some it \<longrightarrow>
             dom it = {''orderId'', ''status'', ''updatedAt''})"
  using assms
  apply (simp add: updateOrderStatus_up set_status_def)
  apply (auto simp: process_record_def GetItem_def catch_block_def Let_def decrement_cases
      updateOrderStatus_up set_status_def)
  done

theorem updateOrderStatus_upsert_witness:
  "orders \<lparr>orders = Map.empty, inventory = stocked ''P-1'' 10\<rparr> (orderId (order_for ''o-9'' ''P-1'' 2)) = None
   \<and> get_up (quiet ''t1'') \<and> dec_up (quiet ''t1'') \<and> status_up (quiet ''t1'')
   \<and> orders (snd (process_record (quiet ''t1'') (order_for ''o-9'' ''P-1'' 2)
        \<lparr>orders = Map.empty, inventory = stocked ''P-1'' 10\<rparr>)) ''o-9''
       = Some [''orderId'' \<mapsto> S ''o-9'', ''status'' \<mapsto> S ''CONFIRMED'', ''updatedAt'' \<mapsto> S ''t1'']
   \<and> dom (the (orders (snd (process_record (quiet ''t1'') (order_for ''o-9'' ''P-1'' 2)
        \<lparr>orders = Map.empty, inventory = stocked ''P-1'' 10\<rparr>)) ''o-9''))
       = {''orderId'', ''status'', ''updatedAt''}"
  using updateOrderStatus_upsert [where env = "quiet ''t1''" and order = "order_for ''o-9'' ''P-1'' 2"
      and d = "\<lparr>orders = Map.empty, inventory = stocked ''P-1'' 10\<rparr>"]
  by (simp add: run_simps)

text \<open>
  C5. A conditional decrement that the store rejects (the stock read was sufficient, the
  stock found at the write is not) ends with the order's status
  \<open>FAILED_INSUFFICIENT_STOCK\<close>, the inventory untouched by this instance and the record
  consumed. The record is consumed exactly when every store call that is made is answered;
  every other failure leaves the loop body as the error it is, and the handler returns
  that error without processing further records. A record that does not parse fails the
  handler as well.
\<close>

theorem lost_race_consumed_other_failures_thrown:
  "(get_up env \<and> \<not> stock_of (inventory d) (productId order) < quantity order
      \<and> dec_up env \<and> \<not> stock_ge (quantity order) (interleaved env (inventory d) (productId order))
      \<and> status_up env \<longrightarrow>
        fst (process_record env order d) = Inr ()
      \<and> status_of (orders (snd (process_record env order d))) (orderId order)
           = Some (S ''FAILED_INSUFFICIENT_STOCK'')
      \<and> inventory (snd (process_record env order d)) = interleaved env (inventory d))
   \<and> (fst (process_record env order d) = Inr () \<longleftrightarrow>
        get_up env
      \<and> (stock_of (inventory d) (productId order) < quantity order \<or> dec_up env)
      \<and> status_up env)
   \<and> (\<forall>e. fst (process_record env order d) = Inl e \<longrightarrow>
        e = ServiceFailure
      \<and> handler_inventory_worker ((env, Record order) # rest) d = (Inl e, snd (process_record env order d)))
   \<and> handler_inventory_worker ((env, Malformed) # rest) d = (Inl SyntaxError, d)"
  apply (cases "get_up env"; cases "dec_up env"; cases "status_up env";
       cases "stock_of (inventory d) (productId order) < quantity order";
       cases "stock_ge (quantity order) (interleaved env (inventory d) (productId order))")
  apply (simp_all add: process_record_def GetItem_def catch_block_def Let_def decrement_cases
         updateOrderStatus_up updateOrderStatus_down status_of_written stock_of_def)
  done

text \<open>
  The race of the spec: stock 1 at the read, taken by a concurrent settlement before the
  write; and a store that does not answer the status write.
\<close>

theorem lost_race_consumed_other_failures_thrown_witness:
  "\<not> stock_of (stocked ''P-2'' 1) ''P-2'' < quantity (order_for ''o-2'' ''P-2'' 1)
   \<and> \<not> stock_ge 1 (interleaved (overtaken ''t1'' ''P-2'') (stocked ''P-2'' 1) ''P-2'')
   \<and> fst (process_record (overtaken ''t1'' ''P-2'') (order_for ''o-2'' ''P-2'' 1)
        \<lparr>orders = pending (order_for ''o-2'' ''P-2'' 1), inventory = stocked ''P-2'' 1\<rparr>) = Inr ()
   \<and> status_of (orders (snd (process_record (overtaken ''t1'' ''P-2'') (order_for ''o-2'' ''P-2'' 1)
        \<lparr>orders = pending (order_for ''o-2'' ''P-2'' 1), inventory = stocked ''P-2'' 1\<rparr>))) ''o-2''
       = Some (S ''FAILED_INSUFFICIENT_STOCK'')
   \<and> fst (process_record ((quiet ''t1'')\<lparr>status_up := False\<rparr>) (order_for ''o-2'' ''P-2'' 1)
        \<lparr>orders = pending (order_for ''o-2'' ''P-2'' 1), inventory = stocked ''P-2'' 1\<rparr>)
       = Inl ServiceFailure
   \<and> fst (handler_inventory_worker [((quiet ''t1'')\<lparr>status_up := False\<rparr>, Record (order_for ''o-2'' ''P-2'' 1)),
                    (quiet ''t2'', Record (order_for ''o-3'' ''P-2'' 1))]
        \<lparr>orders = pending (order_for ''o-2'' ''P-2'' 1), inventory = stocked ''P-2'' 1\<rparr>)
       = Inl ServiceFailure"
  using lost_race_consumed_other_failures_thrown [where env = "overtaken ''t1'' ''P-2''"
      and order = "order_for ''o-2'' ''P-2'' 1" and rest = "[]"
      and d = "\<lparr>orders = pending (order_for ''o-2'' ''P-2'' 1), inventory = stocked ''P-2'' 1\<rparr>"]
    lost_race_consumed_other_failures_thrown [where env = "(quiet ''t1'')\<lparr>status_up := False\<rparr>"
      and order = "order_for ''o-2'' ''P-2'' 1"
      and rest = "[(quiet ''t2'', Record (order_for ''o-3'' ''P-2'' 1))]"
      and d = "\<lparr>orders = pending (order_for ''o-2'' ''P-2'' 1), inventory = stocked ''P-2'' 1\<rparr>"]
  by (simp add: run_simps)





section \<open>Properties of the order service\<close>

lemmas intake_simps = handler_order_service_def order_service_try_def missing_fields_def
  falsy_string_def falsy_number_def PutItem_def attribute_not_exists_def fail_open_def Let_def
  order_item_def order_created_def request_for_def serving_def nothing_stored_def




text \<open>
  For every request with valid fields, a content that parses to \<^verbatim>\<open>null\<close> is answered 500
  and leaves the state as it was.
\<close>

lemma parsed_null_not_a_failure:
  "\<not> missing_fields request \<Longrightarrow> fraud_call env = Content JNull \<Longrightarrow>
     handler_order_service env (Body request) st
       = (\<lparr>statusCode = 500, body = Error ''Internal server error''\<rparr>, st)"
  by (simp add: handler_order_service_def order_service_try_def)

text \<open>
  C7. When the result of the fraud check is flagged (\<^verbatim>\<open>isFraudulent\<close> is \<^verbatim>\<open>true\<close>, or any
  truthy value), a request with valid fields is answered 422 with the error and the
  reason of the result; the Orders table and the topic are left as they were.
\<close>

theorem flagged_rejected:
  assumes "\<not> missing_fields request"
    and "read_property (checkFraud (fraud_call env)) ''isFraudulent'' = Inr isFraudulent"
    and "truthy isFraudulent"
  shows "\<exists>reason. read_property (checkFraud (fraud_call env)) ''reason'' = Inr reason
       \<and> handler_order_service env (Body request) st
           = (\<lparr>statusCode = 422, body = Flagged ''Order flagged for review'' reason\<rparr>, st)"
proof -
  obtain kvs where j: "checkFraud (fraud_call env) = JObj kvs"
    using assms(2,3) by (cases "checkFraud (fraud_call env)") auto
  show ?thesis
    using assms by (simp add: j handler_order_service_def order_service_try_def Let_def)
qed

theorem flagged_rejected_witness:
  "\<not> missing_fields (request_for ''P-1'' 500 499000)
   \<and> read_property (checkFraud (fraud_call (serving (Content (JObj [(''isFraudulent'', JBool True),
          (''reason'', JStr ''abnormal quantity''), (''riskScore'', JNum 95)])) ''id-1'' ''t1'')))
        ''isFraudulent'' = Inr (Some (JBool True))
   \<and> truthy (Some (JBool True))
   \<and> handler_order_service (serving (Content (JObj [(''isFraudulent'', JBool True),
          (''reason'', JStr ''abnormal quantity''), (''riskScore'', JNum 95)])) ''id-1'' ''t1'')
        (Body (request_for ''P-1'' 500 499000)) nothing_stored
       = (\<lparr>statusCode = 422,
           body = Flagged ''Order flagged for review'' (Some (JStr ''abnormal quantity''))\<rparr>,
          nothing_stored)"
  using flagged_rejected [where env = "serving (Content (JObj [(''isFraudulent'', JBool True),
          (''reason'', JStr ''abnormal quantity''), (''riskScore'', JNum 95)])) ''id-1'' ''t1''"
      and request = "request_for ''P-1'' 500 499000" and st = nothing_stored
      and isFraudulent = "Some (JBool True)"]
  by (simp add: serving_def request_for_def missing_fields_def falsy_string_def falsy_number_def)



text \<open>
  C9. Validation is the truthiness of the four fields: a request whose \<open>quantity\<close> or
  \<open>totalAmount\<close> is 0 is answered 400 and nothing is written; the answer is 400 exactly when
  one of the four fields is falsy; and there is a request with negative \<open>quantity\<close> and
  \<open>totalAmount\<close> that passes validation and the fraud check, is stored with the negative
  values and published, and is answered 201.
\<close>

theorem validation_is_truthiness:
  "(OrderRequest.quantity request = Some 0 \<or> OrderRequest.totalAmount request = Some 0 \<longrightarrow>
      handler_order_service env (Body request) st
        = (\<lparr>statusCode = 400, body = Error ''Missing required fields''\<rparr>, st))
   \<and> (statusCode (fst (handler_order_service env (Body request) st)) = 400 \<longleftrightarrow>
        falsy_string (OrderRequest.customerId request) \<or> falsy_string (OrderRequest.productId request)
        \<or> falsy_number (OrderRequest.quantity request) \<or> falsy_number (OrderRequest.totalAmount request))
   \<and> (\<exists>q total. q < 0 \<and> total < 0
        \<and> handler_order_service (serving (Content (JObj [(''isFraudulent'', JBool False)])) ''id-1'' ''t1'')
            (Body (request_for ''P-1'' q total)) nothing_stored
          = (\<lparr>statusCode = 201,
              body = Created ''id-1'' ''PENDING'' ''Order created successfully''\<rparr>,
             \<lparr>order_table = [''id-1'' \<mapsto>
                 [''orderId'' \<mapsto> S ''id-1'', ''customerId'' \<mapsto> S ''CUST-1'',
                  ''productId'' \<mapsto> S ''P-1'', ''quantity'' \<mapsto> N q, ''totalAmount'' \<mapsto> N total,
                  ''status'' \<mapsto> S ''PENDING'', ''createdAt'' \<mapsto> S ''t1'']],
              published = [\<lparr>Message = \<lparr>orderId = ''id-1'', customerId = ''CUST-1'',
                 productId = ''P-1'', quantity = q, totalAmount = total, timestamp = ''t1''\<rparr>,
                 eventType = ''ORDER_CREATED''\<rparr>]\<rparr>))"
proof (intro conjI)
  show "OrderRequest.quantity request = Some 0 \<or> OrderRequest.totalAmount request = Some 0 \<longrightarrow>
      handler_order_service env (Body request) st
        = (\<lparr>statusCode = 400, body = Error ''Missing required fields''\<rparr>, st)"
    by (auto simp: handler_order_service_def order_service_try_def missing_fields_def falsy_number_def)
next
  show "statusCode (fst (handler_order_service env (Body request) st)) = 400 \<longleftrightarrow>
        falsy_string (OrderRequest.customerId request) \<or> falsy_string (OrderRequest.productId request)
        \<or> falsy_number (OrderRequest.quantity request) \<or> falsy_number (OrderRequest.totalAmount request)"
    by (auto simp: handler_order_service_def order_service_try_def missing_fields_def Let_def
        PutItem_def split: sum.splits prod.splits)
next
  show "\<exists>q total. q < 0 \<and> total < 0
        \<and> handler_order_service (serving (Content (JObj [(''isFraudulent'', JBool False)])) ''id-1'' ''t1'')
            (Body (request_for ''P-1'' q total)) nothing_stored
          = (\<lparr>statusCode = 201,
              body = Created ''id-1'' ''PENDING'' ''Order created successfully''\<rparr>,
             \<lparr>order_table = [''id-1'' \<mapsto>
                 [''orderId'' \<mapsto> S ''id-1'', ''customerId'' \<mapsto> S ''CUST-1'',
                  ''productId'' \<mapsto> S ''P-1'', ''quantity'' \<mapsto> N q, ''totalAmount'' \<mapsto> N total,
                  ''status'' \<mapsto> S ''PENDING'', ''createdAt'' \<mapsto> S ''t1'']],
              published = [\<lparr>Message = \<lparr>orderId = ''id-1'', customerId = ''CUST-1'',
                 productId = ''P-1'', quantity = q, totalAmount = total, timestamp = ''t1''\<rparr>,
                 eventType = ''ORDER_CREATED''\<rparr>]\<rparr>)"
    by (rule exI [of _ "- 3"], rule exI [of _ "- 30"]) (simp add: intake_simps)
qed

theorem validation_is_truthiness_witness:
  "OrderRequest.quantity (request_for ''P-1'' 0 100) = Some 0
   \<and> handler_order_service (serving RequestFailed ''id-1'' ''t1'') (Body (request_for ''P-1'' 0 100))
        nothing_stored
      = (\<lparr>statusCode = 400, body = Error ''Missing required fields''\<rparr>, nothing_stored)
   \<and> OrderRequest.totalAmount (request_for ''P-1'' 2 0) = Some 0
   \<and> handler_order_service (serving RequestFailed ''id-1'' ''t1'') (Body (request_for ''P-1'' 2 0))
        nothing_stored
      = (\<lparr>statusCode = 400, body = Error ''Missing required fields''\<rparr>, nothing_stored)"
  using validation_is_truthiness [where request = "request_for ''P-1'' 0 100"
      and env = "serving RequestFailed ''id-1'' ''t1''" and st = nothing_stored]
    validation_is_truthiness [where request = "request_for ''P-1'' 2 0"
      and env = "serving RequestFailed ''id-1'' ''t1''" and st = nothing_stored]
  by (simp add: request_for_def)

section \<open>Properties of the notifier worker\<close>

text \<open>
  C8. When the content call fails (the request is rejected, the response has not the
  expected shape, or the content does not parse), \<open>generateEmailContent\<close> returns the
  fallback, whatever the numbers of the event are and however they print. Its subject is
  \<open>Order Confirmation #\<close> followed by the order id; its body is the fixed text around the
  printed quantity, the product id and the printed total amount. Both are non-empty, they
  are the same for two events that agree on these four fields, and the subject tells the
  order id. The fallback is a function of the event alone: no call is made.
\<close>

theorem fallback_content:
  "(c \<in> {RequestFailed, MalformedEnvelope, UnparseableContent} \<longrightarrow>
      generateEmailContent show_number order c = fallback show_number order)
   \<and> read_property (fallback show_number order) ''subject''
       = Inr (Some (JStr (''Order Confirmation #'' @ OrderEvent_notifier.orderId order)))
   \<and> read_property (fallback show_number order) ''body''
       = Inr (Some (JStr (''Thank you for your order! Your order for ''
            @ show_number (OrderEvent_notifier.quantity order)
            @ ''x '' @ OrderEvent_notifier.productId order
            @ '' ($'' @ show_number (OrderEvent_notifier.totalAmount order)
            @ '') has been received and is being processed.'')))
   \<and> (\<exists>s b. fallback show_number order = JObj [(''subject'', JStr s), (''body'', JStr b)]
        \<and> s \<noteq> [] \<and> b \<noteq> [])
   \<and> (OrderEvent_notifier.orderId order' = OrderEvent_notifier.orderId order
        \<and> OrderEvent_notifier.productId order' = OrderEvent_notifier.productId order
        \<and> OrderEvent_notifier.quantity order' = OrderEvent_notifier.quantity order
        \<and> OrderEvent_notifier.totalAmount order' = OrderEvent_notifier.totalAmount order \<longrightarrow>
      fallback show_number order' = fallback show_number order)
   \<and> (read_property (fallback show_number order') ''subject''
        = read_property (fallback show_number order) ''subject'' \<longrightarrow>
      OrderEvent_notifier.orderId order' = OrderEvent_notifier.orderId order)"
proof (intro conjI impI)
  assume "c \<in> {RequestFailed, MalformedEnvelope, UnparseableContent}"
  then show "generateEmailContent show_number order c = fallback show_number order"
    by (cases c) simp_all
next
  show "read_property (fallback show_number order) ''subject''
      = Inr (Some (JStr (''Order Confirmation #'' @ OrderEvent_notifier.orderId order)))"
    by (simp add: fallback_def)
next
  show "read_property (fallback show_number order) ''body''
       = Inr (Some (JStr (''Thank you for your order! Your order for ''
            @ show_number (OrderEvent_notifier.quantity order)
            @ ''x '' @ OrderEvent_notifier.productId order
            @ '' ($'' @ show_number (OrderEvent_notifier.totalAmount order)
            @ '') has been received and is being processed.'')))"
    by (simp add: fallback_def)
next
  show "\<exists>s b. fallback show_number order = JObj [(''subject'', JStr s), (''body'', JStr b)]
        \<and> s \<noteq> [] \<and> b \<noteq> []"
    by (simp add: fallback_def)
next
  assume "OrderEvent_notifier.orderId order' = OrderEvent_notifier.orderId order
        \<and> OrderEvent_notifier.productId order' = OrderEvent_notifier.productId order
        \<and> OrderEvent_notifier.quantity order' = OrderEvent_notifier.quantity order
        \<and> OrderEvent_notifier.totalAmount order' = OrderEvent_notifier.totalAmount order"
  then show "fallback show_number order' = fallback show_number order"
    by (simp add: fallback_def)
next
  assume "read_property (fallback show_number order') ''subject''
        = read_property (fallback show_number order) ''subject''"
  then show "OrderEvent_notifier.orderId order' = OrderEvent_notifier.orderId order"
    by (simp add: fallback_def)
qed

text \<open>An event with quantity 2 and total 100, its numbers printed as decimal numerals.\<close>

theorem fallback_content_witness:
  "UnparseableContent \<in> {RequestFailed, MalformedEnvelope, UnparseableContent}
   \<and> generateEmailContent decimal notified UnparseableContent
      = JObj [(''subject'', JStr ''Order Confirmation #o-1''),
              (''body'', JStr ''Thank you for your order! Your order for 2x P-1 ($100) has been received and is being processed.'')]
   \<and> fallback decimal (notified\<lparr>OrderEvent_notifier.customerId := ''CUST-7'',
        OrderEvent_notifier.timestamp := ''t9''\<rparr>)
      = fallback decimal notified
   \<and> read_property (fallback decimal (notified\<lparr>OrderEvent_notifier.orderId := ''o-2''\<rparr>)) ''subject''
      = Inr (Some (JStr ''Order Confirmation #o-2''))"
  using fallback_content [where c = UnparseableContent and order = notified
      and show_number = decimal
      and order' = "notified\<lparr>OrderEvent_notifier.customerId := ''CUST-7'',
        OrderEvent_notifier.timestamp := ''t9''\<rparr>"]
    fallback_content [where order = "notified\<lparr>OrderEvent_notifier.orderId := ''o-2''\<rparr>"
      and show_number = decimal]
  by (simp add: notified_def fallback_def decimal_def digits.simps)

section \<open>Properties of concurrent settlement\<close>






























text \<open>
  The loop body for one record is the instance run alone: its three store calls in a row,
  with nothing interleaved.
\<close>

lemma process_record_alone:
  assumes "interleaved env = (\<lambda>t. t)"
  shows "process_record env order d =
     outcome
       (case wstep (get_up env) (now env) order At_read d of (pc1, d1) \<Rightarrow>
          (case wstep (if stock_of (inventory d) (productId order) < quantity order
                       then status_up env else dec_up env) (now env) order pc1 d1 of (pc2, d2) \<Rightarrow>
             wstep (status_up env) (now env) order pc2 d2))"
  using assms
  by (cases "get_up env"; cases "dec_up env"; cases "status_up env";
      cases "stock_of (inventory d) (productId order) < quantity order";
      cases "stock_ge (quantity order) (inventory d (productId order))")
    (simp_all add: process_record_def catch_block_def outcome_def Let_def GetItem_def
      decrement_cases updateOrderStatus_up updateOrderStatus_down caught_def stock_of_def)






end
